theory Spec2Isabelle
  imports Main
begin

section \<open>JavaScript values\<close>

text \<open>
  A JavaScript string is a sequence of UTF-16 code units; the regular expressions of the
  source are built without the \<open>u\<close> flag and so work on code units. ASCII literals are
  written with \<open>str\<close>; the em dash of the source is the code unit 8212.
\<close>

type_synonym jsstring = "nat list"

definition str :: "string \<Rightarrow> jsstring" where
  "str s = map of_char s"

text \<open>A thrown value, identified by its message.\<close>

datatype js_exn = Error jsstring

text \<open>The values that the handler pushes on its \<open>errors\<close> array.\<close>

datatype jsany = Undefined | StringValue jsstring | Exception js_exn | ArrayValue "js_exn list"

text \<open>
  Truthiness of a value that is a string, \<open>null\<close> or \<open>undefined\<close>: the empty string is
  falsy like the other two. \<open>if_truthy\<close> yields the string when the test passes.
\<close>

definition if_truthy :: "jsstring option \<Rightarrow> jsstring option" where
  "if_truthy v = (case v of None \<Rightarrow> None | Some s \<Rightarrow> if s = [] then None else Some s)"

text \<open>\<open>xs[i]\<close>: \<open>undefined\<close> (here \<open>None\<close>) past the end of the array.\<close>

definition index :: "'a list \<Rightarrow> nat \<Rightarrow> 'a option" where
  "index xs i = (if i < length xs then Some (xs ! i) else None)"

text \<open>
  \<open>xs.splice(start, 0, item)\<close> for a start that is not negative: the start is clamped to
  the length of the array, nothing is deleted, and the item is put there.
\<close>

definition splice :: "nat \<Rightarrow> 'a \<Rightarrow> 'a list \<Rightarrow> 'a list" where
  "splice start item xs =
     (let actualStart = min start (length xs)
      in take actualStart xs @ item # drop actualStart xs)"

section \<open>Regular expressions of the source\<close>

text \<open>The class \<open>\s\<close> (white space and line terminators), also what \<open>trim\<close> removes.\<close>

definition isWhiteSpace :: "nat \<Rightarrow> bool" where
  "isWhiteSpace c \<longleftrightarrow>
     c \<in> set [9, 10, 11, 12, 13, 32, 160, 5760, 8232, 8233, 8239, 8287, 12288, 65279]
     \<or> (8192 \<le> c \<and> c \<le> 8202)"

definition isLineTerminator :: "nat \<Rightarrow> bool" where
  "isLineTerminator c \<longleftrightarrow> c \<in> set [10, 13, 8232, 8233]"

text \<open>\<open>/\S/.test(s)\<close>\<close>

definition test_S :: "jsstring \<Rightarrow> bool" where
  "test_S s = list_ex (\<lambda>c. \<not> isWhiteSpace c) s"

definition trim :: "jsstring \<Rightarrow> jsstring" where
  "trim s = rev (dropWhile isWhiteSpace (rev (dropWhile isWhiteSpace s)))"

text \<open>
  The character class of line 143, in the order of the source: \<open>& / \ # , + ( ) $ ~ % . ' " : * ? < > { } |\<close>
  and the em dash.
\<close>

definition isSpecialChar :: "nat \<Rightarrow> bool" where
  "isSpecialChar c \<longleftrightarrow>
     c \<in> set [38, 47, 92, 35, 44, 43, 40, 41, 36, 126, 37, 46, 39, 34, 58, 42, 63, 60, 62,
               123, 125, 124, 8212]"

text \<open>\<open>s.replace(/[...]/g, ' ').trim()\<close>\<close>

definition stripSpecialChars :: "jsstring \<Rightarrow> jsstring" where
  "stripSpecialChars s = trim (map (\<lambda>c. if isSpecialChar c then 32 else c) s)"

text \<open>
  Case-insensitive matching compares canonicalised code units: the upper-case form when it
  is one code unit, except that a code unit from 128 on is never mapped below 128. The
  Unicode table beyond ASCII is the parameter \<open>up\<close> (\<open>None\<close>: no single-unit upper case).
\<close>

definition canonicalize :: "(nat \<Rightarrow> nat option) \<Rightarrow> nat \<Rightarrow> nat" where
  "canonicalize up ch =
     (if ch < 128 then (if 97 \<le> ch \<and> ch \<le> 122 then ch - 32 else ch)
      else (case up ch of None \<Rightarrow> ch | Some cu \<Rightarrow> if cu < 128 then ch else cu))"

text \<open>
  \<open>new RegExp(rootDomain, 'ig')\<close>. The source of the pattern is a domain name as the
  domain-suffix parser returns it: labels of letters, digits and hyphens (or code units
  beyond ASCII), joined by dots. Each code unit is a pattern character that matches itself,
  but the dot, which matches every code unit that is not a line terminator.
\<close>

datatype atom = AnyChar | Literal nat

definition RegExp :: "jsstring \<Rightarrow> atom list" where
  "RegExp source = map (\<lambda>c. if c = 46 then AnyChar else Literal c) source"

text \<open>The pattern syntax that a domain name is free of, the dot apart.\<close>

definition isSyntaxChar :: "nat \<Rightarrow> bool" where
  "isSyntaxChar c \<longleftrightarrow> c \<in> set [94, 36, 92, 42, 43, 63, 40, 41, 91, 93, 123, 125, 124]"

definition domain_source :: "jsstring \<Rightarrow> bool" where
  "domain_source d = list_all (\<lambda>c. \<not> isSyntaxChar c) d"

fun atom_matches :: "(nat \<Rightarrow> nat option) \<Rightarrow> atom \<Rightarrow> nat \<Rightarrow> bool" where
  "atom_matches up AnyChar c = (\<not> isLineTerminator c)"
| "atom_matches up (Literal l) c = (canonicalize up l = canonicalize up c)"

text \<open>A match of the whole pattern at the start of the subject: what follows the match.\<close>

fun match_here :: "(nat \<Rightarrow> nat option) \<Rightarrow> atom list \<Rightarrow> jsstring \<Rightarrow> jsstring option" where
  "match_here up [] s = Some s"
| "match_here up (a # as) [] = None"
| "match_here up (a # as) (c # cs) = (if atom_matches up a c then match_here up as cs else None)"

text \<open>
  \<open>s.replace(re, '')\<close> with the \<open>g\<close> flag: the matches are found from left to right, each
  search starting where the last match ended, and are deleted. The empty pattern matches
  the empty string everywhere, and deleting those matches changes nothing.
\<close>

function replace_ig :: "(nat \<Rightarrow> nat option) \<Rightarrow> atom list \<Rightarrow> jsstring \<Rightarrow> jsstring" where
  "replace_ig up p [] = []"
| "replace_ig up p (c # cs) =
     (if p = [] then c # cs
      else (case match_here up p (c # cs) of
              Some rest \<Rightarrow> replace_ig up p rest
            | None \<Rightarrow> c # replace_ig up p cs))"
  by pat_completeness auto
termination
proof (relation "measure (\<lambda>(up, p, s). length s)")
  show "wf (measure (\<lambda>(up, p, s). length s))" by simp
next
  fix up :: "nat \<Rightarrow> nat option" and p :: "atom list" and c :: nat and cs rest :: jsstring
  have consumed: "match_here f q s = Some r \<Longrightarrow> length s = length q + length r" for f q s r
    by (induction f q s rule: match_here.induct) (auto split: if_splits)
  assume "p \<noteq> []" and "match_here up p (c # cs) = Some rest"
  then have "length (c # cs) = length p + length rest" and "0 < length p"
    using consumed [of up p "c # cs" rest] by auto
  then show "((up, p, rest), (up, p, c # cs)) \<in> measure (\<lambda>(up, p, s). length s)"
    by simp
next
  fix up :: "nat \<Rightarrow> nat option" and p :: "atom list" and c :: nat and cs :: jsstring
  show "((up, p, cs), (up, p, c # cs)) \<in> measure (\<lambda>(up, p, s). length s)"
    by simp
qed

text \<open>The pattern matches somewhere in the subject (\<open>re.test(s)\<close>).\<close>

fun regex_test :: "(nat \<Rightarrow> nat option) \<Rightarrow> atom list \<Rightarrow> jsstring \<Rightarrow> bool" where
  "regex_test up p [] = (p = [])"
| "regex_test up p (c # cs) =
     (case match_here up p (c # cs) of Some rest \<Rightarrow> True | None \<Rightarrow> regex_test up p cs)"

section \<open>The request, the response and the outside world\<close>

text \<open>\<open>req.query.url\<close> is a string, an array of strings, or absent.\<close>

datatype query_value = QString jsstring | QArray "jsstring list" | QUndefined

record request =
  query_url :: query_value
  req_method :: "jsstring option"

record meta_tags =
  url :: jsstring
  title :: jsstring
  favicon :: "jsstring option"
  description :: "jsstring option"
  imageTag :: "jsstring option"
  author :: "jsstring option"
  siteName :: "jsstring option"

text \<open>
  The \<open>result\<close> object of a response. An entry of \<open>imageResults\<close> is a string or
  \<open>undefined\<close> (\<open>None\<close>).
\<close>

record preview =
  metaTags :: "meta_tags option"
  imageSearch :: jsstring
  imageResults :: "jsstring option list"

record apiData =
  success :: bool
  result :: "preview option"
  error :: "jsstring option"
  errors :: "jsany list option"

text \<open>
  What a call of the handler comes to: \<open>res.status(n).json(body)\<close>, or an exception that
  leaves the handler.
\<close>

datatype outcome = Sent nat apiData | Threw js_exn

datatype scrape_result = Data meta_tags | Errors "js_exn list"

record bing_image =
  contentUrl :: jsstring

text \<open>The object \<open>{ results?, error? }\<close> that \<open>getBingImageSearch\<close> resolves to.\<close>

record bing_search =
  results :: "bing_image list option"
  bing_error :: jsany

text \<open>
  What \<open>psl.parse\<close> returns, as far as the handler reads it: \<open>parse_error\<close> is
  \<open>JSON.stringify(parsed.error)\<close> when \<open>parsed.error\<close> is set.
\<close>

record psl_parsed =
  parse_error :: "jsstring option"
  sld :: "jsstring option"

text \<open>
  The network calls of one request, in the order they are made: \<open>api.request(config)\<close> to
  the image search (with the URL of the configuration), \<open>api(url)\<close> for the page, and the
  launch of the headless browser for a URL.
\<close>

datatype event = ApiRequest jsstring | ApiGet jsstring | PuppeteerLaunch jsstring

text \<open>
  The variable \<open>html\<close> of \<open>scrapeMetaTags\<close> is declared \<open>any\<close>: it holds \<open>res.data\<close>, which
  is the text of the response or, for a response in JSON, the parsed value (a number, an
  object, \<open>null\<close>, \<dots>), or it holds what the browser evaluated. A value that is not a
  string is given with its truthiness and its JSON text.
\<close>

datatype html_value = HtmlUndefined | HtmlString jsstring | HtmlOther bool jsstring

definition html_truthy :: "html_value \<Rightarrow> bool" where
  "html_truthy html =
     (case html of HtmlUndefined \<Rightarrow> False | HtmlString s \<Rightarrow> s \<noteq> [] | HtmlOther t json \<Rightarrow> t)"

text \<open>\<open>document.querySelector('*')?.outerHTML\<close>: a string or \<open>undefined\<close>.\<close>

definition string_or_undefined :: "jsstring option \<Rightarrow> html_value" where
  "string_or_undefined doc = (case doc of None \<Rightarrow> HtmlUndefined | Some s \<Rightarrow> HtmlString s)"

text \<open>
  The headless browser either stores the rendered document (\<open>undefined\<close> when the page
  has no element) and then may still fail on closing, or fails before anything is stored.
\<close>

datatype render_outcome = Rendered "jsstring option" "js_exn option" | RenderFailed js_exn

text \<open>
  Everything outside the file is a parameter. The helpers \<open>isValidWebUrl\<close> and
  \<open>extractHostname\<close> of \<open>utils\<close>, the domain-suffix parser, the platform's decoding and
  encoding functions and the HTML query engine are functions of their arguments. A network
  call is answered depending on the calls made before it, so that two calls with the same
  argument may be answered differently; \<open>Inl\<close> is a rejected promise or a thrown
  exception. \<open>api_get\<close> gives \<open>res.data\<close>, \<open>api_request\<close> gives \<open>res.data.value\<close>
  (\<open>None\<close> when it is missing). Output on the console is left out.

  \<open>cheerio_load\<close> is \<open>cheerio.load(html)\<close>: it yields the document that the queries
  \<open>cheerio_title\<close> and \<open>cheerio_attr\<close> read, or throws, as it does on a number. The queries
  on a loaded document do not throw.

  Of the image search, \<open>res.data.value\<close> is taken to be an array of objects with a
  \<open>contentUrl\<close> when it is there; strings are well-formed UTF-16, on which
  \<open>encodeURIComponent\<close> does not throw.
\<close>

record env =
  decodeTarget :: "jsstring \<Rightarrow> js_exn + jsstring"
  isValidWebUrl :: "jsstring \<Rightarrow> bool"
  extractHostname :: "jsstring \<Rightarrow> jsstring"
  psl_get :: "jsstring \<Rightarrow> jsstring option"
  psl_parse :: "jsstring \<Rightarrow> psl_parsed"
  toUpperCase :: "nat \<Rightarrow> nat option"
  encodeURIComponent :: "jsstring \<Rightarrow> jsstring"
  recodeURI :: "jsstring \<Rightarrow> js_exn + jsstring"
  api_request :: "event list \<Rightarrow> jsstring \<Rightarrow> js_exn + bing_image list option"
  api_get :: "event list \<Rightarrow> jsstring \<Rightarrow> js_exn + html_value"
  puppeteer_render :: "event list \<Rightarrow> jsstring \<Rightarrow> render_outcome"
  cheerio_load :: "html_value \<Rightarrow> js_exn + jsstring"
  cheerio_title :: "jsstring \<Rightarrow> jsstring"
  cheerio_attr :: "jsstring \<Rightarrow> jsstring \<Rightarrow> jsstring \<Rightarrow> jsstring option"

text \<open>
  Modelled from the spec: \<open>isString\<close> of \<open>utils\<close> is not among the sources. The spec
  accepts exactly one URL string and rejects an absent value and multiple values. The
  function is a type guard: where it holds, the value is used as a string, so the model
  yields that string.
\<close>

definition isString :: "query_value \<Rightarrow> jsstring option" where
  "isString q = (case q of QString s \<Rightarrow> Some s | QArray ss \<Rightarrow> None | QUndefined \<Rightarrow> None)"

section \<open>getImageSearchString\<close>

definition getImageSearchString ::
  "env \<Rightarrow> jsstring \<Rightarrow> jsstring \<Rightarrow> jsstring option \<Rightarrow> jsstring" where
  "getImageSearchString env ttl u site =
     (let rootDomain = psl_get env (extractHostname env u);
          searchString =
            (case if_truthy rootDomain of
               Some domainSearchMask \<Rightarrow>
                 (let domainRegEx = RegExp domainSearchMask;
                      stripRootDomain = replace_ig (toUpperCase env) domainRegEx ttl
                  in if test_S stripRootDomain then stripRootDomain else ttl)
             | None \<Rightarrow> ttl)
      in stripSpecialChars searchString)"

section \<open>getBingImageSearch\<close>

definition bing_url :: "env \<Rightarrow> jsstring \<Rightarrow> jsstring" where
  "bing_url env search =
     str ''https://api.bing.microsoft.com/v7.0/images/search'' @ str ''?q=''
       @ encodeURIComponent env search @ str ''&aspect=Square''"

definition getBingImageSearch ::
  "env \<Rightarrow> event list \<Rightarrow> jsstring \<Rightarrow> bing_search \<times> event list" where
  "getBingImageSearch env tr search =
     (if search \<noteq> [] then
        (case api_request env tr (bing_url env search) of
           Inr v \<Rightarrow>
             (\<lparr>results = v, bing_error = Undefined\<rparr>, tr @ [ApiRequest (bing_url env search)])
         | Inl e \<Rightarrow>
             (\<lparr>results = None, bing_error = Exception e\<rparr>,
              tr @ [ApiRequest (bing_url env search)]))
      else
        (\<lparr>results = None, bing_error = StringValue (str ''No search string for image'')\<rparr>,
         tr))"

section \<open>scrapeMetaTags\<close>

text \<open>\<open>a || b\<close> on attribute values: the first operand when it is truthy.\<close>

definition js_or :: "jsstring option \<Rightarrow> jsstring option \<Rightarrow> jsstring option" where
  "js_or a b = (case if_truthy a of Some s \<Rightarrow> a | None \<Rightarrow> b)"

definition getMetatag :: "env \<Rightarrow> jsstring \<Rightarrow> jsstring \<Rightarrow> jsstring option" where
  "getMetatag env html name =
     js_or (cheerio_attr env html (str ''meta[name='' @ name @ str '']'') (str ''content''))
       (js_or (cheerio_attr env html
                 (str ''meta[name='' @ [34] @ str ''og:'' @ name @ [34] @ str '']'')
                 (str ''content''))
          (js_or (cheerio_attr env html
                    (str ''meta[property='' @ [34] @ str ''og:'' @ name @ [34] @ str '']'')
                    (str ''content''))
             (cheerio_attr env html
                (str ''meta[name='' @ [34] @ str ''twitter:'' @ name @ [34] @ str '']'')
                (str ''content''))))"

text \<open>
  The direct request: the URL is recoded first, and whatever is thrown is caught and
  pushed on \<open>errors\<close>. The result is the value of \<open>html\<close>, the errors and the calls made.
\<close>

definition direct_fetch ::
  "env \<Rightarrow> event list \<Rightarrow> jsstring \<Rightarrow> html_value \<times> js_exn list \<times> event list" where
  "direct_fetch env tr u =
     (case recodeURI env u of
        Inl err \<Rightarrow> (HtmlUndefined, [err], tr)
      | Inr recoded \<Rightarrow>
          (case api_get env tr recoded of
             Inr d \<Rightarrow> (d, [], tr @ [ApiGet recoded])
           | Inl err \<Rightarrow> (HtmlUndefined, [err], tr @ [ApiGet recoded])))"

text \<open>The fallback, entered only when \<open>html\<close> is falsy.\<close>

definition render_fallback ::
  "env \<Rightarrow> jsstring \<Rightarrow> html_value \<times> js_exn list \<times> event list
     \<Rightarrow> html_value \<times> js_exn list \<times> event list" where
  "render_fallback env u st =
     (case st of (html, errs, tr) \<Rightarrow>
        if html_truthy html then (html, errs, tr)
        else
          (case puppeteer_render env tr u of
             Rendered doc None \<Rightarrow> (string_or_undefined doc, errs, tr @ [PuppeteerLaunch u])
           | Rendered doc (Some err) \<Rightarrow>
               (string_or_undefined doc, errs @ [err], tr @ [PuppeteerLaunch u])
           | RenderFailed err \<Rightarrow> (html, errs @ [err], tr @ [PuppeteerLaunch u])))"

text \<open>
  The last step, lines 218 to 245, stands in no \<open>try\<close> block: what \<open>cheerio.load\<close> throws
  leaves \<open>scrapeMetaTags\<close> (\<open>Inl\<close>).
\<close>

definition scrapeMetaTags ::
  "env \<Rightarrow> event list \<Rightarrow> jsstring \<Rightarrow> (js_exn + scrape_result) \<times> event list" where
  "scrapeMetaTags env tr u =
     (case render_fallback env u (direct_fetch env tr u) of (html, errs, tr') \<Rightarrow>
        if html_truthy html then
          (case cheerio_load env html of
             Inl thrown \<Rightarrow> (Inl thrown, tr')
           | Inr h \<Rightarrow>
               (Inr (Data \<lparr>url = u,
                    title = cheerio_title env h,
                    favicon = cheerio_attr env h
                      (str ''link[rel='' @ [34] @ str ''shortcut icon'' @ [34] @ str '']'')
                      (str ''href''),
                    description = getMetatag env h (str ''description''),
                    imageTag = getMetatag env h (str ''image''),
                    author = getMetatag env h (str ''author''),
                    siteName = getMetatag env h (str ''site_name'')\<rparr>), tr'))
        else (Inr (Errors errs), tr'))"

section \<open>handler\<close>

text \<open>The five insertions of lines 62 to 66, on an array that grows with each of them.\<close>

definition add_root_images :: "jsstring list \<Rightarrow> jsstring option list \<Rightarrow> jsstring option list" where
  "add_root_images rootDomainImageUrls imageUrls =
     splice 20 (index rootDomainImageUrls 4)
       (splice 15 (index rootDomainImageUrls 3)
          (splice 10 (index rootDomainImageUrls 2)
             (splice 5 (index rootDomainImageUrls 1)
                (splice 2 (index rootDomainImageUrls 0) imageUrls))))"

text \<open>
  The part of the \<open>GET\<close> case after the search for the root domain: the search string, the
  images and the errors of that search are given, with the calls made so far. The call
  of \<open>scrapeMetaTags\<close> at line 53 stands in no \<open>try\<close> block: what it throws leaves the
  handler.
\<close>

definition page_branch ::
  "env \<Rightarrow> jsstring \<Rightarrow> jsstring \<Rightarrow> jsstring list \<Rightarrow> jsany list \<Rightarrow> event list
     \<Rightarrow> outcome \<times> event list" where
  "page_branch env targetUrl imageSearchString rootDomainImageUrls errs tr =
     (case scrapeMetaTags env tr targetUrl of
        (Inl thrown, tr2) \<Rightarrow> (Threw thrown, tr2)
      | (Inr (Data d), tr2) \<Rightarrow>
          if test_S (title d) then
            (let searchString = getImageSearchString env (title d) (url d) (siteName d)
             in case getBingImageSearch env tr2 searchString of (search, tr3) \<Rightarrow>
                  (case results search of
                     Some rs \<Rightarrow>
                       (Sent 200
                          \<lparr>success = True,
                           result = Some
                             \<lparr>metaTags = Some d, imageSearch = searchString,
                              imageResults =
                                add_root_images rootDomainImageUrls
                                  (map (\<lambda>imageResult. Some (contentUrl imageResult)) rs)\<rparr>,
                           error = None, errors = None\<rparr>, tr3)
                   | None \<Rightarrow>
                       (Sent 200
                          \<lparr>success = True,
                           result = Some
                             \<lparr>metaTags = Some d, imageSearch = searchString,
                              imageResults = map Some rootDomainImageUrls\<rparr>,
                           error = None, errors = Some (errs @ [bing_error search])\<rparr>, tr3)))
          else
            (Sent 200
               \<lparr>success = True,
                result = Some
                  \<lparr>metaTags = Some d, imageSearch = imageSearchString,
                   imageResults = map Some rootDomainImageUrls\<rparr>,
                error = None, errors = Some errs\<rparr>, tr2)
      | (Inr (Errors es), tr2) \<Rightarrow>
          (Sent 200
             \<lparr>success = True,
              result = Some
                \<lparr>metaTags = None, imageSearch = imageSearchString,
                 imageResults = map Some rootDomainImageUrls\<rparr>,
              error = None, errors = Some (errs @ [ArrayValue es])\<rparr>, tr2))"

text \<open>The \<open>GET\<close> case up to the search for the root domain.\<close>

definition root_branch :: "env \<Rightarrow> jsstring \<Rightarrow> outcome \<times> event list" where
  "root_branch env targetUrl =
     (case if_truthy (psl_get env (extractHostname env targetUrl)) of
        Some rootDomain \<Rightarrow>
          (let parsed = psl_parse env rootDomain
           in case parse_error parsed of
                None \<Rightarrow>
                  (case if_truthy (sld parsed) of
                     Some imageSearchString \<Rightarrow>
                       (case getBingImageSearch env [] imageSearchString of (search, tr) \<Rightarrow>
                          (case results search of
                             Some rs \<Rightarrow>
                               page_branch env targetUrl imageSearchString
                                 (map contentUrl rs) [] tr
                           | None \<Rightarrow>
                               page_branch env targetUrl imageSearchString
                                 [] [bing_error search] tr))
                   | None \<Rightarrow> (Threw (Error (str ''sld not found'')), []))
              | Some err \<Rightarrow> (Threw (Error err), []))
      | None \<Rightarrow> (Threw (Error (str ''Root domain not found'')), []))"

definition handler :: "env \<Rightarrow> request \<Rightarrow> outcome \<times> event list" where
  "handler env req =
     (case isString (query_url req) of
        Some raw \<Rightarrow>
          (case decodeTarget env raw of
             Inl err \<Rightarrow> (Threw err, [])
           | Inr targetUrl \<Rightarrow>
               if isValidWebUrl env targetUrl then
                 (if req_method req = Some (str ''GET'') then root_branch env targetUrl
                  else
                    (Sent 404
                       \<lparr>success = False, result = None,
                        error = Some (str ''Method ''
                          @ (case req_method req of Some m \<Rightarrow> m | None \<Rightarrow> str ''undefined'')
                          @ str '' not allowed''),
                        errors = None\<rparr>, []))
               else
                 (Sent 400
                    \<lparr>success = False, result = None,
                     error = Some (str ''Invalid web url''), errors = None\<rparr>, []))
      | None \<Rightarrow>
          (Sent 400
             \<lparr>success = False, result = None,
              error = Some (str ''Only one url can be checked''), errors = None\<rparr>, []))"

section \<open>Vocabulary of the properties\<close>

text \<open>
  A validated \<open>GET\<close> request: one URL string that decodes to a valid web URL, with the
  method \<open>GET\<close>.
\<close>

definition validated_GET :: "env \<Rightarrow> request \<Rightarrow> jsstring \<Rightarrow> bool" where
  "validated_GET env req targetUrl \<longleftrightarrow>
     (case query_url req of
        QString raw \<Rightarrow> decodeTarget env raw = Inr targetUrl
      | QArray ss \<Rightarrow> False
      | QUndefined \<Rightarrow> False)
     \<and> isValidWebUrl env targetUrl \<and> req_method req = Some (str ''GET'')"

text \<open>
  The root domain of the target URL is resolved: the parser finds a registrable domain,
  a name of domain characters (what \<open>RegExp\<close> above is the model of), and its
  second-level label, without an error.
\<close>

definition root_resolved :: "env \<Rightarrow> jsstring \<Rightarrow> jsstring \<Rightarrow> jsstring \<Rightarrow> bool" where
  "root_resolved env targetUrl rootDomain label \<longleftrightarrow>
     psl_get env (extractHostname env targetUrl) = Some rootDomain
     \<and> rootDomain \<noteq> [] \<and> domain_source rootDomain
     \<and> parse_error (psl_parse env rootDomain) = None
     \<and> sld (psl_parse env rootDomain) = Some label \<and> label \<noteq> []"

text \<open>The image searches among the calls made, by the URL requested.\<close>

fun provider_calls :: "event list \<Rightarrow> jsstring list" where
  "provider_calls [] = []"
| "provider_calls (ApiRequest q # tr) = q # provider_calls tr"
| "provider_calls (ApiGet u # tr) = provider_calls tr"
| "provider_calls (PuppeteerLaunch u # tr) = provider_calls tr"

text \<open>
  The images of the root domain and the errors recorded for them, given the answer to the
  first image search: no image, and one error, when the search failed.
\<close>

definition rootDomainImages :: "js_exn + bing_image list option \<Rightarrow> jsstring list" where
  "rootDomainImages reply =
     (case reply of Inr (Some rs) \<Rightarrow> map contentUrl rs | Inr None \<Rightarrow> [] | Inl e \<Rightarrow> [])"

definition rootDomainErrors :: "js_exn + bing_image list option \<Rightarrow> jsany list" where
  "rootDomainErrors reply =
     (case reply of Inr (Some rs) \<Rightarrow> [] | Inr None \<Rightarrow> [Undefined] | Inl e \<Rightarrow> [Exception e])"

section \<open>Example worlds\<close>

text \<open>
  A world for the examples: every host has the registrable domain \<open>domain\<close> (none when
  it is empty), whose label is its part before the first dot; the first image search is
  answered with \<open>first\<close>, every later one with \<open>later\<close>; the page request is answered with
  \<open>page\<close>, a string or nothing, and the browser with \<open>rendered\<close>; a string loads as a
  document, and the load of any other value throws a \<open>TypeError\<close>; every document has the
  title \<open>ttl\<close> and no other tag. A URL is valid when it begins with \<open>http\<close>.
\<close>

definition example_env ::
  "jsstring \<Rightarrow> (js_exn + bing_image list option) \<Rightarrow> (js_exn + bing_image list option)
     \<Rightarrow> (js_exn + jsstring option) \<Rightarrow> render_outcome \<Rightarrow> jsstring \<Rightarrow> env" where
  "example_env domain first later page rendered ttl =
     \<lparr>decodeTarget = Inr,
      isValidWebUrl = (\<lambda>u. take 4 u = str ''http''),
      extractHostname = (\<lambda>u. str ''example.com''),
      psl_get = (\<lambda>h. if domain = [] then None else Some domain),
      psl_parse = (\<lambda>d. \<lparr>parse_error = None, sld = Some (takeWhile (\<lambda>c. c \<noteq> 46) d)\<rparr>),
      toUpperCase = (\<lambda>c. None),
      encodeURIComponent = (\<lambda>s. s),
      recodeURI = Inr,
      api_request = (\<lambda>tr q. if tr = [] then first else later),
      api_get = (\<lambda>tr u. case page of Inl e \<Rightarrow> Inl e | Inr d \<Rightarrow> Inr (string_or_undefined d)),
      puppeteer_render = (\<lambda>tr u. rendered),
      cheerio_load =
        (\<lambda>html. case html of
           HtmlString s \<Rightarrow> Inr s
         | HtmlUndefined \<Rightarrow> Inl (Error (str ''TypeError''))
         | HtmlOther t json \<Rightarrow> Inl (Error (str ''TypeError''))),
      cheerio_title = (\<lambda>h. ttl),
      cheerio_attr = (\<lambda>h selector a. None)\<rparr>"

definition images :: "string list \<Rightarrow> bing_image list" where
  "images names = map (\<lambda>n. \<lparr>contentUrl = str n\<rparr>) names"

definition example_request :: "string \<Rightarrow> string \<Rightarrow> request" where
  "example_request m u = \<lparr>query_url = QString (str u), req_method = Some (str m)\<rparr>"

section \<open>Auxiliary facts\<close>

lemmas eval_defs =
  handler_def root_branch_def page_branch_def scrapeMetaTags_def render_fallback_def
  direct_fetch_def getBingImageSearch_def getImageSearchString_def getMetatag_def js_or_def
  bing_url_def add_root_images_def splice_def index_def example_env_def example_request_def
  images_def str_def if_truthy_def RegExp_def canonicalize_def isLineTerminator_def test_S_def
  isWhiteSpace_def stripSpecialChars_def trim_def isSpecialChar_def isString_def
  validated_GET_def root_resolved_def domain_source_def isSyntaxChar_def
  rootDomainImages_def rootDomainErrors_def html_truthy_def string_or_undefined_def Let_def

lemmas string_defs =
  getImageSearchString_def example_env_def str_def if_truthy_def RegExp_def canonicalize_def
  isLineTerminator_def test_S_def isWhiteSpace_def stripSpecialChars_def trim_def
  isSpecialChar_def domain_source_def isSyntaxChar_def

lemma length_splice: "length (splice start item xs) = Suc (length xs)"
  by (simp add: splice_def Let_def)

lemma set_trim: "set (trim s) \<subseteq> set s"
proof -
  have "set (dropWhile isWhiteSpace (rev (dropWhile isWhiteSpace s))) \<subseteq> set (rev (dropWhile isWhiteSpace s))"
    by (rule set_dropWhileD [THEN subsetI]) 
  also have "\<dots> \<subseteq> set s" by (auto dest: set_dropWhileD)
  finally show ?thesis by (simp add: trim_def)
qed

lemma trim_ends:
  assumes "trim s \<noteq> []"
  shows "\<not> isWhiteSpace (hd (trim s)) \<and> \<not> isWhiteSpace (last (trim s))"
proof -
  let ?a = "dropWhile isWhiteSpace s"
  let ?b = "dropWhile isWhiteSpace (rev ?a)"
  from assms have b: "?b \<noteq> []" by (simp add: trim_def)
  then have hb: "\<not> isWhiteSpace (hd ?b)" by (rule hd_dropWhile)
  have a: "?a \<noteq> []"
  proof
    assume "?a = []"
    then have "?b = []" by (simp only: rev.simps(1) dropWhile.simps(1))
    with b show False by simp
  qed
  then have ha: "\<not> isWhiteSpace (hd ?a)" by (rule hd_dropWhile)
  have l: "last (trim s) = hd ?b" using b by (simp add: trim_def last_rev)
  obtain ws where ws: "rev ?a = ws @ ?b" by (metis takeWhile_dropWhile_id)
  then have "?a = rev ?b @ rev ws" by (metis rev_append rev_rev_ident)
  then have "hd ?a = hd (rev ?b)" using b by (metis hd_append2 rev_is_Nil_conv)
  then have "hd (trim s) = hd ?a" by (simp add: trim_def)
  with ha hb l show ?thesis by simp
qed

lemma trim_id:
  assumes "s = [] \<or> (\<not> isWhiteSpace (hd s) \<and> \<not> isWhiteSpace (last s))"
  shows "trim s = s"
proof (cases s)
  case Nil then show ?thesis by (simp add: trim_def)
next
  case (Cons c cs)
  with assms have h: "\<not> isWhiteSpace (hd s)" and l: "\<not> isWhiteSpace (last s)" by auto
  from h Cons have 1: "dropWhile isWhiteSpace s = s" by simp
  from Cons have "rev s = last s # rev (butlast s)"
    by (metis append_butlast_last_id list.distinct(1) rev.simps(2) rev_append rev_rev_ident
        rev_singleton_conv)
  with l have "dropWhile isWhiteSpace (rev s) = rev s"
    by (simp only: dropWhile.simps if_False)
  with 1 show ?thesis by (simp add: trim_def)
qed

lemma replace_ig_no_match: "\<not> regex_test up p s \<Longrightarrow> replace_ig up p s = s"
  by (induction s) (auto split: option.splits)

lemma provider_calls_append: "provider_calls (tr @ tr') = provider_calls tr @ provider_calls tr'"
  by (induction tr rule: provider_calls.induct) auto

lemma scrapeMetaTags_provider_calls:
  "scrapeMetaTags env tr u = (r, tr') \<Longrightarrow> provider_calls tr' = provider_calls tr"
  by (auto simp: scrapeMetaTags_def render_fallback_def direct_fetch_def provider_calls_append
      split: sum.splits option.splits render_outcome.splits prod.splits if_splits)

lemma scrapeMetaTags_url: "scrapeMetaTags env tr u = (Inr (Data m), tr') \<Longrightarrow> url m = u"
  by (auto simp: scrapeMetaTags_def split: prod.splits sum.splits if_splits)

lemma handler_validated: "validated_GET env req targetUrl \<Longrightarrow> handler env req = root_branch env targetUrl"
  by (auto simp: validated_GET_def handler_def isString_def split: query_value.splits)

lemma root_branch_resolved:
  "root_resolved env targetUrl rootDomain label \<Longrightarrow>
   root_branch env targetUrl =
     (case api_request env [] (bing_url env label) of
        Inr (Some rs) \<Rightarrow> page_branch env targetUrl label (map contentUrl rs) [] [ApiRequest (bing_url env label)]
      | Inr None \<Rightarrow> page_branch env targetUrl label [] [Undefined] [ApiRequest (bing_url env label)]
      | Inl e \<Rightarrow> page_branch env targetUrl label [] [Exception e] [ApiRequest (bing_url env label)])"
  by (auto simp: root_resolved_def root_branch_def if_truthy_def getBingImageSearch_def
      split: sum.splits option.splits)

lemma match_here_length:
  "match_here up p s = Some rest \<Longrightarrow> length s = length p + length rest"
  by (induction up p s rule: match_here.induct) (auto split: if_splits)

lemma replace_ig_length_le: "length (replace_ig up p s) \<le> length s"
proof (induction up p s rule: replace_ig.induct)
  case (1 up p)
  then show ?case by simp
next
  case (2 up p c cs)
  show ?case
  proof (cases "p = []")
    case True
    then show ?thesis by simp
  next
    case False
    show ?thesis
    proof (cases "match_here up p (c # cs)")
      case None
      with False 2 show ?thesis by simp
    next
      case (Some rest)
      with False 2 have "length (replace_ig up p rest) \<le> length rest" by simp
      moreover have "length (c # cs) = length p + length rest"
        using Some by (rule match_here_length)
      ultimately show ?thesis using False Some by simp
    qed
  qed
qed

lemma replace_ig_deletes:
  "p \<noteq> [] \<Longrightarrow> regex_test up p s \<Longrightarrow> length (replace_ig up p s) + length p \<le> length s"
proof (induction s)
  case Nil
  then show ?case by simp
next
  case (Cons c cs)
  show ?case
  proof (cases "match_here up p (c # cs)")
    case None
    with Cons show ?thesis by simp
  next
    case (Some rest)
    have "length (replace_ig up p rest) \<le> length rest" by (rule replace_ig_length_le)
    moreover have "length (c # cs) = length p + length rest"
      using Some by (rule match_here_length)
    ultimately show ?thesis using Cons.prems Some by simp
  qed
qed

lemma stripSpecialChars_no_special: "c \<in> set (stripSpecialChars s) \<Longrightarrow> \<not> isSpecialChar c"
proof -
  assume "c \<in> set (stripSpecialChars s)"
  then have "c \<in> set (map (\<lambda>c. if isSpecialChar c then 32 else c) s)"
    unfolding stripSpecialChars_def using set_trim by (rule rev_subsetD)
  then have "c \<in> (\<lambda>c. if isSpecialChar c then 32 else c) ` set s"
    by (simp only: set_map)
  then obtain x where x: "c = (if isSpecialChar x then 32 else x)"
    by (rule imageE)
  have space: "\<not> isSpecialChar 32"
    by (simp add: isSpecialChar_def)
  show ?thesis
  proof (cases "isSpecialChar x")
    case True
    with x have "c = 32" by simp
    with space show ?thesis by simp
  next
    case False
    with x show ?thesis by simp
  qed
qed

lemma stripSpecialChars_id:
  assumes "\<forall>c\<in>set s. \<not> isSpecialChar c"
    and "s = [] \<or> (\<not> isWhiteSpace (hd s) \<and> \<not> isWhiteSpace (last s))"
  shows "stripSpecialChars s = s"
proof -
  from assms(1) have "map (\<lambda>c. if isSpecialChar c then 32 else c) s = s"
    by (induction s) auto
  with assms(2) show ?thesis by (simp add: stripSpecialChars_def trim_id)
qed

lemma getImageSearchString_resolved:
  "psl_get env (extractHostname env u) = Some rootDomain \<Longrightarrow> rootDomain \<noteq> [] \<Longrightarrow>
   getImageSearchString env ttl u site =
     stripSpecialChars
       (if test_S (replace_ig (toUpperCase env) (RegExp rootDomain) ttl)
        then replace_ig (toUpperCase env) (RegExp rootDomain) ttl else ttl)"
  by (simp add: getImageSearchString_def if_truthy_def)

lemma root_branch_resolved':
  "root_resolved env targetUrl rootDomain label \<Longrightarrow>
   root_branch env targetUrl =
     page_branch env targetUrl label
       (rootDomainImages (api_request env [] (bing_url env label)))
       (rootDomainErrors (api_request env [] (bing_url env label)))
       [ApiRequest (bing_url env label)]"
  by (simp add: root_branch_resolved rootDomainImages_def rootDomainErrors_def
      split: sum.splits option.splits)

lemma page_branch_sends:
  "scrapeMetaTags env tr targetUrl = (Inr scraped, tr2) \<Longrightarrow>
   \<exists>body r tr'. page_branch env targetUrl label roots errs tr = (Sent 200 body, tr')
     \<and> success body \<and> result body = Some r"
  by (cases scraped)
    (auto simp: page_branch_def Let_def split: prod.splits option.splits)

lemma page_branch_url:
  assumes "page_branch env targetUrl label roots errs tr = (Sent st body, tr')"
    and "result body = Some r" and "metaTags r = Some m"
  shows "url m = targetUrl"
proof (cases "scrapeMetaTags env tr targetUrl")
  case (Pair returned tr2)
  show ?thesis
  proof (cases returned)
    case (Inl thrown)
    with assms Pair show ?thesis
      by (simp add: page_branch_def)
  next
    case (Inr scraped)
    show ?thesis
    proof (cases scraped)
      case (Data d)
      with Pair Inr have "url d = targetUrl"
        using scrapeMetaTags_url [of env tr targetUrl d tr2] by simp
      moreover from assms Pair Inr Data have "m = d"
        by (auto simp: page_branch_def Let_def split: prod.splits option.splits if_splits)
      ultimately show ?thesis by simp
    next
      case (Errors es)
      with assms Pair Inr show ?thesis
        by (auto simp: page_branch_def)
    qed
  qed
qed

lemma root_branch_url:
  assumes "root_branch env targetUrl = (Sent st body, tr')"
    and "result body = Some r" and "metaTags r = Some m"
  shows "url m = targetUrl"
proof -
  from assms(1) obtain label roots errs tr where
    "page_branch env targetUrl label roots errs tr = (Sent st body, tr')"
    by (auto simp: root_branch_def Let_def split: prod.splits option.splits)
  then show ?thesis using assms(2,3) by (rule page_branch_url)
qed

section \<open>The merge of the two image lists\<close>

text \<open>
  Claim C1. When both image searches succeed, with the root-domain images \<open>[a, b, c, d, e]\<close>
  and the ten page-specific images \<open>[p0, \<dots>, p9]\<close>, the handler answers 200 and
  \<open>imageResults\<close> is the page-specific list after the five insertions, each made on the
  list as it has grown: \<open>a\<close> at index 2, \<open>b\<close> at index 5, \<open>c\<close> at index 10, and \<open>d\<close> and \<open>e\<close>
  at the indices 15 and 20, which lie past the end of the list by then, so that both are
  put at its end.
\<close>

theorem merge_five_into_ten:
  assumes "validated_GET env req targetUrl"
    and "root_resolved env targetUrl rootDomain label"
    and "api_request env [] (bing_url env label) = Inr (Some roots)"
    and "map contentUrl roots = [a, b, c, d, e]"
    and "scrapeMetaTags env [ApiRequest (bing_url env label)] targetUrl = (Inr (Data tags), tr)"
    and "test_S (title tags)"
    and "getImageSearchString env (title tags) (url tags) (siteName tags) = q"
    and "q \<noteq> []"
    and "api_request env tr (bing_url env q) = Inr (Some pages)"
    and "map contentUrl pages = [p0, p1, p2, p3, p4, p5, p6, p7, p8, p9]"
  shows "handler env req =
           (Sent 200
              \<lparr>success = True,
               result = Some
                 \<lparr>metaTags = Some tags, imageSearch = q,
                  imageResults =
                    map Some [p0, p1, a, p2, p3, b, p4, p5, p6, p7, c, p8, p9, d, e]\<rparr>,
               error = None, errors = None\<rparr>,
            tr @ [ApiRequest (bing_url env q)])
         \<and> map Some [p0, p1, a, p2, p3, b, p4, p5, p6, p7, c, p8, p9, d, e] =
             splice 20 (Some e) (splice 15 (Some d) (splice 10 (Some c) (splice 5 (Some b)
               (splice 2 (Some a) (map Some [p0, p1, p2, p3, p4, p5, p6, p7, p8, p9])))))"
proof -
  have "map (\<lambda>imageResult. Some (contentUrl imageResult)) pages =
      map Some (map contentUrl pages)"
    by (simp add: comp_def)
  then have pages: "map (\<lambda>imageResult. Some (contentUrl imageResult)) pages =
      map Some [p0, p1, p2, p3, p4, p5, p6, p7, p8, p9]"
    by (simp only: assms(10))
  have merged: "add_root_images [a, b, c, d, e] (map Some [p0, p1, p2, p3, p4, p5, p6, p7, p8, p9]) =
      map Some [p0, p1, a, p2, p3, b, p4, p5, p6, p7, c, p8, p9, d, e]"
    by (simp add: add_root_images_def splice_def index_def)
  have "handler env req = root_branch env targetUrl"
    using assms(1) by (rule handler_validated)
  also have "\<dots> = page_branch env targetUrl label [a, b, c, d, e] [] [ApiRequest (bing_url env label)]"
    using assms(3,4) by (simp add: root_branch_resolved [OF assms(2)])
  also have "\<dots> = (Sent 200
              \<lparr>success = True,
               result = Some
                 \<lparr>metaTags = Some tags, imageSearch = q,
                  imageResults =
                    map Some [p0, p1, a, p2, p3, b, p4, p5, p6, p7, c, p8, p9, d, e]\<rparr>,
               error = None, errors = None\<rparr>,
            tr @ [ApiRequest (bing_url env q)])"
    using assms(5-9)
    by (simp add: page_branch_def getBingImageSearch_def pages merged [simplified])
  finally show ?thesis by (simp add: splice_def)
qed

text \<open>The end-to-end scenario of the spec, at the page \<open>https://example.com/article\<close>.\<close>

theorem merge_five_into_ten_witness:
  "handler
     (example_env (str ''example.com'') (Inr (Some (images [''a'', ''b'', ''c'', ''d'', ''e''])))
        (Inr (Some (images [''p0'', ''p1'', ''p2'', ''p3'', ''p4'', ''p5'', ''p6'', ''p7'', ''p8'', ''p9''])))
        (Inr (Some (str ''<html>''))) (RenderFailed (Error [])) (str ''Example Article''))
     (example_request ''GET'' ''https://example.com/article'') =
   (Sent 200
      \<lparr>success = True,
       result = Some
         \<lparr>metaTags = Some
            \<lparr>url = str ''https://example.com/article'', title = str ''Example Article'',
             favicon = None, description = None, imageTag = None, author = None,
             siteName = None\<rparr>,
          imageSearch = str ''Example Article'',
          imageResults = map (\<lambda>n. Some (str n))
            [''p0'', ''p1'', ''a'', ''p2'', ''p3'', ''b'', ''p4'', ''p5'', ''p6'', ''p7'', ''c'',
             ''p8'', ''p9'', ''d'', ''e'']\<rparr>,
       error = None, errors = None\<rparr>,
    [ApiRequest (str ''https://api.bing.microsoft.com/v7.0/images/search?q=example&aspect=Square''),
     ApiGet (str ''https://example.com/article''),
     ApiRequest (str ''https://api.bing.microsoft.com/v7.0/images/search?q=Example Article&aspect=Square'')])"
proof -
  let ?env = "example_env (str ''example.com'') (Inr (Some (images [''a'', ''b'', ''c'', ''d'', ''e''])))
        (Inr (Some (images [''p0'', ''p1'', ''p2'', ''p3'', ''p4'', ''p5'', ''p6'', ''p7'', ''p8'', ''p9''])))
        (Inr (Some (str ''<html>''))) (RenderFailed (Error [])) (str ''Example Article'')"
  let ?req = "example_request ''GET'' ''https://example.com/article''"
  let ?tags = "\<lparr>url = str ''https://example.com/article'', title = str ''Example Article'',
             favicon = None, description = None, imageTag = None, author = None,
             siteName = None\<rparr>"
  have 1: "validated_GET ?env ?req (str ''https://example.com/article'')"
    by (simp add: eval_defs)
  have 2: "root_resolved ?env (str ''https://example.com/article'') (str ''example.com'') (str ''example'')"
    by (simp add: eval_defs)
  have 3: "api_request ?env [] (bing_url ?env (str ''example'')) = Inr (Some (images [''a'', ''b'', ''c'', ''d'', ''e'']))"
    by (simp add: example_env_def)
  have 4: "map contentUrl (images [''a'', ''b'', ''c'', ''d'', ''e'']) = [str ''a'', str ''b'', str ''c'', str ''d'', str ''e'']"
    by (simp add: images_def)
  have 5: "scrapeMetaTags ?env [ApiRequest (bing_url ?env (str ''example''))] (str ''https://example.com/article'')
      = (Inr (Data ?tags), [ApiRequest (bing_url ?env (str ''example'')), ApiGet (str ''https://example.com/article'')])"
    by (simp add: eval_defs)
  have 6: "test_S (title ?tags)" by (simp add: eval_defs)
  have 7: "getImageSearchString ?env (title ?tags) (url ?tags) (siteName ?tags) = str ''Example Article''"
    by (simp add: eval_defs)
  have 8: "str ''Example Article'' \<noteq> []" by (simp add: str_def)
  have 9: "api_request ?env [ApiRequest (bing_url ?env (str ''example'')), ApiGet (str ''https://example.com/article'')]
       (bing_url ?env (str ''Example Article'')) = Inr (Some (images [''p0'', ''p1'', ''p2'', ''p3'', ''p4'', ''p5'', ''p6'', ''p7'', ''p8'', ''p9'']))"
    by (simp add: example_env_def)
  have 10: "map contentUrl (images [''p0'', ''p1'', ''p2'', ''p3'', ''p4'', ''p5'', ''p6'', ''p7'', ''p8'', ''p9'']) =
     [str ''p0'', str ''p1'', str ''p2'', str ''p3'', str ''p4'', str ''p5'', str ''p6'', str ''p7'', str ''p8'', str ''p9'']"
    by (simp add: images_def)
  from merge_five_into_ten [OF 1 2 3 4 5 6 7 8 9 10]
  show ?thesis by (simp add: bing_url_def example_env_def str_def)
qed

section \<open>The search string of the page\<close>

text \<open>
  Claim C3 says that the search string derived from a title has no occurrence of the
  second-level label of the root domain. It fails at the example of the spec: for the
  title \<open>Example Site \<emdash> Example\<close> and the root domain \<open>example.com\<close>, whose label is
  \<open>example\<close>, the search string is \<open>Example Site   Example\<close>, in which \<open>example\<close> still
  matches. The pattern is the whole root domain, which the title does not hold.
\<close>

theorem label_survives_in_search_string:
  "getImageSearchString
     (example_env (str ''example.com'') (Inr None) (Inr None) (Inr None)
        (RenderFailed (Error [])) [])
     (str ''Example Site '' @ [8212] @ str '' Example'') (str ''https://example.com'') None =
     str ''Example Site   Example''
   \<and> regex_test (\<lambda>c. None) (RegExp (str ''example'')) (str ''Example Site   Example'')
   \<and> sld (psl_parse
        (example_env (str ''example.com'') (Inr None) (Inr None) (Inr None)
           (RenderFailed (Error [])) []) (str ''example.com'')) = Some (str ''example'')"
  by (simp add: string_defs)

text \<open>
  Claim C3, amended. What is deleted from the title are the matches of the root domain
  name, read as a case-insensitive pattern: where the rest holds a character that is not
  white space, the search string is that rest with the special characters replaced by
  spaces, trimmed; a match, where there is one, takes at least the length of the root
  domain off the title; with no match the title itself goes through the special-character
  step, whatever it holds of the label. In every case the search string has no special
  character, and begins and ends with a character that is not white space unless it is
  empty.
\<close>

theorem search_string_strips_root_domain:
  assumes "psl_get env (extractHostname env u) = Some rootDomain"
    and "rootDomain \<noteq> []" and "domain_source rootDomain"
  shows "(test_S (replace_ig (toUpperCase env) (RegExp rootDomain) ttl) \<longrightarrow>
            getImageSearchString env ttl u site =
              stripSpecialChars (replace_ig (toUpperCase env) (RegExp rootDomain) ttl))
         \<and> (regex_test (toUpperCase env) (RegExp rootDomain) ttl \<longrightarrow>
              length (replace_ig (toUpperCase env) (RegExp rootDomain) ttl) + length rootDomain
                \<le> length ttl)
         \<and> (\<not> regex_test (toUpperCase env) (RegExp rootDomain) ttl \<longrightarrow>
              getImageSearchString env ttl u site = stripSpecialChars ttl)
         \<and> (\<forall>c\<in>set (getImageSearchString env ttl u site). \<not> isSpecialChar c)
         \<and> (getImageSearchString env ttl u site \<noteq> [] \<longrightarrow>
              \<not> isWhiteSpace (hd (getImageSearchString env ttl u site))
              \<and> \<not> isWhiteSpace (last (getImageSearchString env ttl u site)))"
proof -
  let ?stripped = "replace_ig (toUpperCase env) (RegExp rootDomain) ttl"
  note unfolded = getImageSearchString_resolved [OF assms(1,2), of ttl site]
  have pattern: "RegExp rootDomain \<noteq> []" "length (RegExp rootDomain) = length rootDomain"
    using assms(2) by (simp_all add: RegExp_def)
  have 1: "test_S ?stripped \<longrightarrow> getImageSearchString env ttl u site = stripSpecialChars ?stripped"
    by (simp add: unfolded)
  have 2: "regex_test (toUpperCase env) (RegExp rootDomain) ttl \<longrightarrow>
      length ?stripped + length rootDomain \<le> length ttl"
    using replace_ig_deletes [OF pattern(1), of "toUpperCase env" ttl] pattern(2) by simp
  have 3: "\<not> regex_test (toUpperCase env) (RegExp rootDomain) ttl \<longrightarrow>
      getImageSearchString env ttl u site = stripSpecialChars ttl"
    by (simp add: unfolded replace_ig_no_match)
  obtain s where s: "getImageSearchString env ttl u site = stripSpecialChars s"
    using unfolded by blast
  have 4: "\<forall>c\<in>set (getImageSearchString env ttl u site). \<not> isSpecialChar c"
    unfolding s by (blast dest: stripSpecialChars_no_special)
  have 5: "getImageSearchString env ttl u site \<noteq> [] \<longrightarrow>
      \<not> isWhiteSpace (hd (getImageSearchString env ttl u site))
      \<and> \<not> isWhiteSpace (last (getImageSearchString env ttl u site))"
    unfolding s stripSpecialChars_def by (blast dest: trim_ends)
  from 1 2 3 4 5 show ?thesis by blast
qed

theorem search_string_strips_root_domain_witness:
  "getImageSearchString
     (example_env (str ''example.com'') (Inr None) (Inr None) (Inr None)
        (RenderFailed (Error [])) [])
     (str ''Example.com news'') (str ''https://example.com'') None = str ''news''
   \<and> length (replace_ig (\<lambda>c. None) (RegExp (str ''example.com'')) (str ''Example.com news'')) + 11
       \<le> length (str ''Example.com news'')
   \<and> getImageSearchString
     (example_env (str ''example.com'') (Inr None) (Inr None) (Inr None)
        (RenderFailed (Error [])) [])
     (str ''Example Article'') (str ''https://example.com'') None = str ''Example Article''
   \<and> list_all (\<lambda>c. \<not> isSpecialChar c) (str ''news'')
   \<and> \<not> isWhiteSpace (hd (str ''news'')) \<and> \<not> isWhiteSpace (last (str ''news''))"
proof -
  let ?env = "example_env (str ''example.com'') (Inr None) (Inr None) (Inr None)
        (RenderFailed (Error [])) []"
  have a: "psl_get ?env (extractHostname ?env (str ''https://example.com'')) = Some (str ''example.com'')"
    and b: "str ''example.com'' \<noteq> []" and c: "domain_source (str ''example.com'')"
    by (simp_all add: string_defs)
  have stripped: "replace_ig (toUpperCase ?env) (RegExp (str ''example.com'')) (str ''Example.com news'') = str '' news''"
    by (simp add: string_defs)
  have hit: "regex_test (toUpperCase ?env) (RegExp (str ''example.com'')) (str ''Example.com news'')"
    by (simp add: string_defs)
  have miss: "\<not> regex_test (toUpperCase ?env) (RegExp (str ''example.com'')) (str ''Example Article'')"
    by (simp add: string_defs)
  have up: "toUpperCase ?env = (\<lambda>c. None)"
    by (simp add: example_env_def)
  have news: "stripSpecialChars (str '' news'') = str ''news''"
    and article: "stripSpecialChars (str ''Example Article'') = str ''Example Article''"
    and nonblank: "test_S (str '' news'')" and len: "length (str ''example.com'') = 11"
    by (simp_all add: string_defs)
  note t1 = search_string_strips_root_domain [OF a b c, of "str ''Example.com news''" None]
  note t2 = search_string_strips_root_domain [OF a b c, of "str ''Example Article''" None]
  from t1 stripped hit nonblank news len up
  have r1: "getImageSearchString ?env (str ''Example.com news'') (str ''https://example.com'') None = str ''news''"
    and r2: "length (replace_ig (\<lambda>c. None) (RegExp (str ''example.com'')) (str ''Example.com news'')) + 11
       \<le> length (str ''Example.com news'')"
    by simp_all
  from t1 r1
  have r4: "list_all (\<lambda>c. \<not> isSpecialChar c) (str ''news'')"
    and r5: "\<not> isWhiteSpace (hd (str ''news'')) \<and> \<not> isWhiteSpace (last (str ''news''))"
    by (simp_all add: list_all_iff str_def)
  from t2 miss article
  have r3: "getImageSearchString ?env (str ''Example Article'') (str ''https://example.com'') None = str ''Example Article''"
    by simp
  from r1 r2 r3 r4 r5 show ?thesis by blast
qed

text \<open>
  Claim C4 says that a title of which the removal leaves only white space is searched for
  exactly as scraped. It fails for the title \<open>Example.com\<close> of the page
  \<open>https://example.com\<close>: the removal leaves nothing, and the search string is
  \<open>Example com\<close>, the title after the special-character step.
\<close>

theorem emptied_title_keeps_special_char_step:
  "\<not> test_S (replace_ig (\<lambda>c. None) (RegExp (str ''example.com'')) (str ''Example.com''))
   \<and> getImageSearchString
       (example_env (str ''example.com'') (Inr None) (Inr None) (Inr None)
          (RenderFailed (Error [])) [])
       (str ''Example.com'') (str ''https://example.com'') None = str ''Example com''
   \<and> str ''Example com'' \<noteq> str ''Example.com''"
  by (simp add: string_defs)

text \<open>
  Claim C4, amended. When the removal of the root domain leaves only white space or
  nothing, the search string is the original title with its special characters replaced
  by spaces, trimmed; it is the title itself when the title has no special character and
  neither begins nor ends with white space.
\<close>

theorem emptied_title_falls_back:
  assumes "psl_get env (extractHostname env u) = Some rootDomain"
    and "rootDomain \<noteq> []" and "domain_source rootDomain"
    and "\<not> test_S (replace_ig (toUpperCase env) (RegExp rootDomain) ttl)"
  shows "getImageSearchString env ttl u site =
           trim (map (\<lambda>c. if isSpecialChar c then 32 else c) ttl)
         \<and> ((\<forall>c\<in>set ttl. \<not> isSpecialChar c)
              \<and> (ttl = [] \<or> \<not> isWhiteSpace (hd ttl) \<and> \<not> isWhiteSpace (last ttl))
             \<longrightarrow> getImageSearchString env ttl u site = ttl)"
proof -
  have "getImageSearchString env ttl u site = stripSpecialChars ttl"
    using assms(4) by (simp add: getImageSearchString_resolved [OF assms(1,2)])
  then show ?thesis
    by (auto simp: stripSpecialChars_id) (simp add: stripSpecialChars_def)
qed

theorem emptied_title_falls_back_witness:
  "getImageSearchString
     (example_env (str ''example.com'') (Inr None) (Inr None) (Inr None)
        (RenderFailed (Error [])) [])
     (str ''Example.com'') (str ''https://example.com'') None =
     trim (map (\<lambda>c. if isSpecialChar c then 32 else c) (str ''Example.com''))
   \<and> getImageSearchString
     (example_env (str ''example.com'') (Inr None) (Inr None) (Inr None)
        (RenderFailed (Error [])) [])
     (str ''Example com'') (str ''https://example.com'') None = str ''Example com''"
proof -
  let ?env = "example_env (str ''example.com'') (Inr None) (Inr None) (Inr None)
        (RenderFailed (Error [])) []"
  have a: "psl_get ?env (extractHostname ?env (str ''https://example.com'')) = Some (str ''example.com'')"
    and b: "str ''example.com'' \<noteq> []" and c: "domain_source (str ''example.com'')"
    by (simp_all add: string_defs)
  have d1: "\<not> test_S (replace_ig (toUpperCase ?env) (RegExp (str ''example.com'')) (str ''Example.com''))"
    and d2: "\<not> test_S (replace_ig (toUpperCase ?env) (RegExp (str ''example.com'')) (str ''Example com''))"
    by (simp_all add: string_defs)
  have plain: "\<forall>c\<in>set (str ''Example com''). \<not> isSpecialChar c"
    and ends: "\<not> isWhiteSpace (hd (str ''Example com'')) \<and> \<not> isWhiteSpace (last (str ''Example com''))"
    by (simp_all add: str_def isSpecialChar_def isWhiteSpace_def)
  from emptied_title_falls_back [OF a b c d1, of None]
    emptied_title_falls_back [OF a b c d2, of None] plain ends
  show ?thesis by blast
qed

section \<open>The handler\<close>

text \<open>
  Claim C2 says that a root-domain list of fewer than five images gives no insertion for
  the missing ones. The handler inserts five times whatever the list holds: with the
  root-domain images \<open>[a]\<close> and the page-specific images \<open>[p0, p1, p2]\<close> the response
  lists eight entries, four of them \<open>undefined\<close>, and not the four images; the merged
  list is always five entries longer than the page-specific one.
\<close>

theorem short_root_list_inserts_undefined:
  "handler
     (example_env (str ''example.com'') (Inr (Some (images [''a''])))
        (Inr (Some (images [''p0'', ''p1'', ''p2''])))
        (Inr (Some (str ''<html>''))) (RenderFailed (Error [])) (str ''Example Article''))
     (example_request ''GET'' ''https://example.com/article'') =
   (Sent 200
      \<lparr>success = True,
       result = Some
         \<lparr>metaTags = Some
            \<lparr>url = str ''https://example.com/article'', title = str ''Example Article'',
             favicon = None, description = None, imageTag = None, author = None,
             siteName = None\<rparr>,
          imageSearch = str ''Example Article'',
          imageResults =
            [Some (str ''p0''), Some (str ''p1''), Some (str ''a''), Some (str ''p2''),
             None, None, None, None]\<rparr>,
       error = None, errors = None\<rparr>,
    [ApiRequest (str ''https://api.bing.microsoft.com/v7.0/images/search?q=example&aspect=Square''),
     ApiGet (str ''https://example.com/article''),
     ApiRequest (str ''https://api.bing.microsoft.com/v7.0/images/search?q=Example Article&aspect=Square'')])
   \<and> length (add_root_images rootDomainImageUrls imageUrls) = length imageUrls + 5"
proof (rule conjI)
  show "length (add_root_images rootDomainImageUrls imageUrls) = length imageUrls + 5"
    by (simp add: add_root_images_def length_splice)
qed (simp add: eval_defs)

text \<open>
  Claim C5. When the search for the root domain succeeds and the provider fails on the
  page-specific search, the handler answers 200 with \<open>success\<close> set, the scraped
  metadata, the images of the root domain as \<open>imageResults\<close>, and an \<open>errors\<close> list that
  holds the provider's error.
\<close>

theorem page_search_failure_falls_back:
  assumes "validated_GET env req targetUrl"
    and "root_resolved env targetUrl rootDomain label"
    and "api_request env [] (bing_url env label) = Inr (Some roots)"
    and "scrapeMetaTags env [ApiRequest (bing_url env label)] targetUrl = (Inr (Data tags), tr)"
    and "test_S (title tags)"
    and "getImageSearchString env (title tags) (url tags) (siteName tags) = q"
    and "q \<noteq> []"
    and "api_request env tr (bing_url env q) = Inl err"
  shows "handler env req =
           (Sent 200
              \<lparr>success = True,
               result = Some
                 \<lparr>metaTags = Some tags, imageSearch = q,
                  imageResults = map Some (map contentUrl roots)\<rparr>,
               error = None, errors = Some [Exception err]\<rparr>,
            tr @ [ApiRequest (bing_url env q)])"
proof -
  have "handler env req = root_branch env targetUrl"
    using assms(1) by (rule handler_validated)
  also have "\<dots> = page_branch env targetUrl label (map contentUrl roots) []
      [ApiRequest (bing_url env label)]"
    using assms(3) by (simp add: root_branch_resolved [OF assms(2)])
  also have "\<dots> = (Sent 200
              \<lparr>success = True,
               result = Some
                 \<lparr>metaTags = Some tags, imageSearch = q,
                  imageResults = map Some (map contentUrl roots)\<rparr>,
               error = None, errors = Some [Exception err]\<rparr>,
            tr @ [ApiRequest (bing_url env q)])"
    using assms(4-8) by (simp add: page_branch_def getBingImageSearch_def)
  finally show ?thesis .
qed

theorem page_search_failure_falls_back_witness:
  "handler
     (example_env (str ''example.com'') (Inr (Some (images [''a'', ''b''])))
        (Inl (Error (str ''Request failed with status code 401'')))
        (Inr (Some (str ''<html>''))) (RenderFailed (Error [])) (str ''Example Article''))
     (example_request ''GET'' ''https://example.com/article'') =
   (Sent 200
      \<lparr>success = True,
       result = Some
         \<lparr>metaTags = Some
            \<lparr>url = str ''https://example.com/article'', title = str ''Example Article'',
             favicon = None, description = None, imageTag = None, author = None,
             siteName = None\<rparr>,
          imageSearch = str ''Example Article'',
          imageResults = [Some (str ''a''), Some (str ''b'')]\<rparr>,
       error = None,
       errors = Some [Exception (Error (str ''Request failed with status code 401''))]\<rparr>,
    [ApiRequest (str ''https://api.bing.microsoft.com/v7.0/images/search?q=example&aspect=Square''),
     ApiGet (str ''https://example.com/article''),
     ApiRequest (str ''https://api.bing.microsoft.com/v7.0/images/search?q=Example Article&aspect=Square'')])"
proof -
  let ?env = "example_env (str ''example.com'') (Inr (Some (images [''a'', ''b''])))
        (Inl (Error (str ''Request failed with status code 401'')))
        (Inr (Some (str ''<html>''))) (RenderFailed (Error [])) (str ''Example Article'')"
  let ?req = "example_request ''GET'' ''https://example.com/article''"
  let ?tags = "\<lparr>url = str ''https://example.com/article'', title = str ''Example Article'',
             favicon = None, description = None, imageTag = None, author = None,
             siteName = None\<rparr>"
  let ?tr = "[ApiRequest (bing_url ?env (str ''example'')), ApiGet (str ''https://example.com/article'')]"
  have 1: "validated_GET ?env ?req (str ''https://example.com/article'')"
    by (simp add: eval_defs)
  have 2: "root_resolved ?env (str ''https://example.com/article'') (str ''example.com'') (str ''example'')"
    by (simp add: eval_defs)
  have 3: "api_request ?env [] (bing_url ?env (str ''example'')) = Inr (Some (images [''a'', ''b'']))"
    by (simp add: example_env_def)
  have 4: "scrapeMetaTags ?env [ApiRequest (bing_url ?env (str ''example''))] (str ''https://example.com/article'')
      = (Inr (Data ?tags), ?tr)"
    by (simp add: eval_defs)
  have 5: "test_S (title ?tags)" by (simp add: eval_defs)
  have 6: "getImageSearchString ?env (title ?tags) (url ?tags) (siteName ?tags) = str ''Example Article''"
    by (simp add: eval_defs)
  have 7: "str ''Example Article'' \<noteq> []" by (simp add: str_def)
  have 8: "api_request ?env ?tr (bing_url ?env (str ''Example Article''))
      = Inl (Error (str ''Request failed with status code 401''))"
    by (simp add: example_env_def)
  from page_search_failure_falls_back [OF 1 2 3 4 5 6 7 8]
  show ?thesis by (simp add: bing_url_def example_env_def str_def images_def)
qed

text \<open>
  Claim C6. When the scrape succeeds with a title that is empty or all white space, the
  handler answers 200 with the images of the root domain as \<open>imageResults\<close>, and the only
  image search of the request is the one for the label of the root domain.
\<close>

theorem blank_title_skips_page_search:
  assumes "validated_GET env req targetUrl"
    and "root_resolved env targetUrl rootDomain label"
    and "scrapeMetaTags env [ApiRequest (bing_url env label)] targetUrl = (Inr (Data tags), tr)"
    and "\<not> test_S (title tags)"
  shows "handler env req =
           (Sent 200
              \<lparr>success = True,
               result = Some
                 \<lparr>metaTags = Some tags, imageSearch = label,
                  imageResults =
                    map Some (rootDomainImages (api_request env [] (bing_url env label)))\<rparr>,
               error = None,
               errors = Some (rootDomainErrors (api_request env [] (bing_url env label)))\<rparr>,
            tr)
         \<and> provider_calls tr = [bing_url env label]"
proof -
  have "handler env req = root_branch env targetUrl"
    using assms(1) by (rule handler_validated)
  also have "\<dots> = page_branch env targetUrl label
       (rootDomainImages (api_request env [] (bing_url env label)))
       (rootDomainErrors (api_request env [] (bing_url env label)))
       [ApiRequest (bing_url env label)]"
    using assms(2) by (rule root_branch_resolved')
  also have "\<dots> = (Sent 200
              \<lparr>success = True,
               result = Some
                 \<lparr>metaTags = Some tags, imageSearch = label,
                  imageResults =
                    map Some (rootDomainImages (api_request env [] (bing_url env label)))\<rparr>,
               error = None,
               errors = Some (rootDomainErrors (api_request env [] (bing_url env label)))\<rparr>,
            tr)"
    using assms(3,4) by (simp add: page_branch_def)
  finally have sent: "handler env req = \<dots>" .
  have "provider_calls tr = provider_calls [ApiRequest (bing_url env label)]"
    using assms(3) by (rule scrapeMetaTags_provider_calls)
  with sent show ?thesis by simp
qed

theorem blank_title_skips_page_search_witness:
  "handler
     (example_env (str ''example.com'') (Inr (Some (images [''a'', ''b''])))
        (Inr (Some (images [''p0''])))
        (Inr (Some (str ''<html>''))) (RenderFailed (Error [])) (str ''   ''))
     (example_request ''GET'' ''https://example.com/article'') =
   (Sent 200
      \<lparr>success = True,
       result = Some
         \<lparr>metaTags = Some
            \<lparr>url = str ''https://example.com/article'', title = str ''   '',
             favicon = None, description = None, imageTag = None, author = None,
             siteName = None\<rparr>,
          imageSearch = str ''example'',
          imageResults = [Some (str ''a''), Some (str ''b'')]\<rparr>,
       error = None, errors = Some []\<rparr>,
    [ApiRequest (str ''https://api.bing.microsoft.com/v7.0/images/search?q=example&aspect=Square''),
     ApiGet (str ''https://example.com/article'')])
   \<and> provider_calls
       [ApiRequest (str ''https://api.bing.microsoft.com/v7.0/images/search?q=example&aspect=Square''),
        ApiGet (str ''https://example.com/article'')] =
       [str ''https://api.bing.microsoft.com/v7.0/images/search?q=example&aspect=Square'']"
proof -
  let ?env = "example_env (str ''example.com'') (Inr (Some (images [''a'', ''b''])))
        (Inr (Some (images [''p0''])))
        (Inr (Some (str ''<html>''))) (RenderFailed (Error [])) (str ''   '')"
  let ?req = "example_request ''GET'' ''https://example.com/article''"
  let ?tags = "\<lparr>url = str ''https://example.com/article'', title = str ''   '',
             favicon = None, description = None, imageTag = None, author = None,
             siteName = None\<rparr>"
  let ?tr = "[ApiRequest (bing_url ?env (str ''example'')), ApiGet (str ''https://example.com/article'')]"
  have 1: "validated_GET ?env ?req (str ''https://example.com/article'')"
    by (simp add: eval_defs)
  have 2: "root_resolved ?env (str ''https://example.com/article'') (str ''example.com'') (str ''example'')"
    by (simp add: eval_defs)
  have 3: "scrapeMetaTags ?env [ApiRequest (bing_url ?env (str ''example''))] (str ''https://example.com/article'')
      = (Inr (Data ?tags), ?tr)"
    by (simp add: eval_defs)
  have 4: "\<not> test_S (title ?tags)" by (simp add: eval_defs)
  from blank_title_skips_page_search [OF 1 2 3 4]
  show ?thesis
    by (simp add: bing_url_def example_env_def str_def images_def rootDomainImages_def
        rootDomainErrors_def)
qed

text \<open>
  The failures of the resolution of the root domain abort a validated \<open>GET\<close> request
  before any network call: the handler throws, nothing is scraped and nothing is sent.
\<close>

lemma root_domain_failure_throws:
  assumes "validated_GET env req targetUrl"
  shows "(if_truthy (psl_get env (extractHostname env targetUrl)) = None \<longrightarrow>
            handler env req = (Threw (Error (str ''Root domain not found'')), []))
         \<and> (\<forall>rootDomain err.
               if_truthy (psl_get env (extractHostname env targetUrl)) = Some rootDomain
               \<and> parse_error (psl_parse env rootDomain) = Some err \<longrightarrow>
               handler env req = (Threw (Error err), []))
         \<and> (\<forall>rootDomain.
               if_truthy (psl_get env (extractHostname env targetUrl)) = Some rootDomain
               \<and> parse_error (psl_parse env rootDomain) = None
               \<and> if_truthy (sld (psl_parse env rootDomain)) = None \<longrightarrow>
               handler env req = (Threw (Error (str ''sld not found'')), []))"
proof -
  have h: "handler env req = root_branch env targetUrl"
    using assms by (rule handler_validated)
  show ?thesis
    by (simp add: h root_branch_def)
qed

text \<open>
  With the root domain resolved, the handler answers 200 whenever \<open>scrapeMetaTags\<close>
  returns, and throws what \<open>scrapeMetaTags\<close> throws.
\<close>

lemma resolved_root_sends_when_scrape_returns:
  assumes "validated_GET env req targetUrl"
    and "root_resolved env targetUrl rootDomain label"
    and "scrapeMetaTags env [ApiRequest (bing_url env label)] targetUrl = (Inr scraped, tr)"
  shows "\<exists>body r tr'. handler env req = (Sent 200 body, tr')
           \<and> success body \<and> result body = Some r"
proof -
  have "handler env req = page_branch env targetUrl label
       (rootDomainImages (api_request env [] (bing_url env label)))
       (rootDomainErrors (api_request env [] (bing_url env label)))
       [ApiRequest (bing_url env label)]"
    using assms(1,2) by (simp add: handler_validated root_branch_resolved')
  with page_branch_sends [OF assms(3)] show ?thesis
    by simp
qed

lemma resolved_root_throws_when_scrape_throws:
  assumes "validated_GET env req targetUrl"
    and "root_resolved env targetUrl rootDomain label"
    and "scrapeMetaTags env [ApiRequest (bing_url env label)] targetUrl = (Inl thrown, tr)"
  shows "handler env req = (Threw thrown, tr)"
proof -
  have "handler env req = page_branch env targetUrl label
       (rootDomainImages (api_request env [] (bing_url env label)))
       (rootDomainErrors (api_request env [] (bing_url env label)))
       [ApiRequest (bing_url env label)]"
    using assms(1,2) by (simp add: handler_validated root_branch_resolved')
  with assms(3) show ?thesis
    by (simp add: page_branch_def)
qed

text \<open>
  Claim C7 says that the failures of the resolution abort the request, and that every
  validated \<open>GET\<close> request whose root domain is resolved is answered 200. The first holds.
  The second fails where the page answers with a body in JSON: for the body \<open>42\<close> of
  \<open>https://example.com/data.json\<close>, with the root domain \<open>example.com\<close> resolved and its
  image search answered, \<open>html\<close> is the number 42, \<open>cheerio.load\<close> throws, and the handler
  throws with it; no response is sent.
\<close>

theorem json_page_makes_handler_throw:
  "validated_GET
     ((example_env (str ''example.com'') (Inr (Some (images [''a'', ''b'']))) (Inr None) (Inr None)
         (RenderFailed (Error [])) (str ''Example Article''))
        \<lparr>api_get := \<lambda>tr u. Inr (HtmlOther True (str ''42''))\<rparr>)
     (example_request ''GET'' ''https://example.com/data.json'')
     (str ''https://example.com/data.json'')
   \<and> root_resolved
     ((example_env (str ''example.com'') (Inr (Some (images [''a'', ''b'']))) (Inr None) (Inr None)
         (RenderFailed (Error [])) (str ''Example Article''))
        \<lparr>api_get := \<lambda>tr u. Inr (HtmlOther True (str ''42''))\<rparr>)
     (str ''https://example.com/data.json'') (str ''example.com'') (str ''example'')
   \<and> handler
     ((example_env (str ''example.com'') (Inr (Some (images [''a'', ''b'']))) (Inr None) (Inr None)
         (RenderFailed (Error [])) (str ''Example Article''))
        \<lparr>api_get := \<lambda>tr u. Inr (HtmlOther True (str ''42''))\<rparr>)
     (example_request ''GET'' ''https://example.com/data.json'') =
     (Threw (Error (str ''TypeError'')),
      [ApiRequest (str ''https://api.bing.microsoft.com/v7.0/images/search?q=example&aspect=Square''),
       ApiGet (str ''https://example.com/data.json'')])"
  by (simp add: eval_defs)

section \<open>The scraper\<close>

text \<open>
  The failures of the request and of the browser are caught: \<open>scrapeMetaTags\<close> throws only
  what \<open>cheerio.load\<close> throws on a truthy value of \<open>html\<close>, and returns an \<open>errors\<close> record
  when \<open>html\<close> is falsy after both paths.
\<close>

lemma scrapeMetaTags_outcomes:
  assumes "render_fallback env u (direct_fetch env tr u) = (html, errs, tr')"
  shows "(\<not> html_truthy html \<longrightarrow> scrapeMetaTags env tr u = (Inr (Errors errs), tr'))
         \<and> (\<forall>thrown. html_truthy html \<and> cheerio_load env html = Inl thrown \<longrightarrow>
               scrapeMetaTags env tr u = (Inl thrown, tr'))
         \<and> (\<forall>h. html_truthy html \<and> cheerio_load env html = Inr h \<longrightarrow>
               (\<exists>m. scrapeMetaTags env tr u = (Inr (Data m), tr')
                  \<and> url m = u \<and> title m = cheerio_title env h))"
  using assms by (simp add: scrapeMetaTags_def)

text \<open>
  Claim C8 says that \<open>scrapeMetaTags\<close> always returns a \<open>data\<close> or an \<open>errors\<close> record and
  never throws. It throws where the request succeeds with a truthy body that is not a
  string: for the body \<open>42\<close> of \<open>https://example.com/data.json\<close> the browser is not
  tried, \<open>cheerio.load\<close> throws outside the two \<open>try\<close> blocks, and the exception leaves
  \<open>scrapeMetaTags\<close>.
\<close>

theorem scrapeMetaTags_throws_on_json_body:
  "scrapeMetaTags
     ((example_env (str ''example.com'') (Inr None) (Inr None) (Inr None)
         (RenderFailed (Error [])) (str ''Example Article''))
        \<lparr>api_get := \<lambda>tr u. Inr (HtmlOther True (str ''42''))\<rparr>)
     [] (str ''https://example.com/data.json'') =
     (Inl (Error (str ''TypeError'')), [ApiGet (str ''https://example.com/data.json'')])"
  by (simp add: eval_defs)

section \<open>Methods other than GET\<close>

text \<open>
  Claim C9 says that every request with another method than \<open>GET\<close> is answered with
  method-not-allowed, whether the decoded URL is valid or not. The handler checks the URL
  before it looks at the method: a \<open>POST\<close> for \<open>ftp://example.com/article\<close> is answered
  400, \<open>Invalid web url\<close>.
\<close>

theorem invalid_url_precedes_method_check:
  "req_method (example_request ''POST'' ''ftp://example.com/article'') \<noteq> Some (str ''GET'')
   \<and> handler
       (example_env (str ''example.com'') (Inr None) (Inr None) (Inr None)
          (RenderFailed (Error [])) [])
       (example_request ''POST'' ''ftp://example.com/article'') =
     (Sent 400
        \<lparr>success = False, result = None, error = Some (str ''Invalid web url''),
         errors = None\<rparr>, [])"
  by (simp add: eval_defs)

text \<open>
  Claim C9, amended. A request with another method than \<open>GET\<close> whose one URL string
  decodes to a valid web URL is answered 404, \<open>Method \<dots> not allowed\<close>, without any
  network call; when the decoded URL is not valid, it is answered 400, \<open>Invalid web url\<close>.
\<close>

theorem other_methods_not_allowed:
  assumes "query_url req = QString raw"
    and "decodeTarget env raw = Inr targetUrl"
    and "req_method req \<noteq> Some (str ''GET'')"
  shows "(isValidWebUrl env targetUrl \<longrightarrow>
            handler env req =
              (Sent 404
                 \<lparr>success = False, result = None,
                  error = Some (str ''Method ''
                    @ (case req_method req of Some m \<Rightarrow> m | None \<Rightarrow> str ''undefined'')
                    @ str '' not allowed''),
                  errors = None\<rparr>, []))
         \<and> (\<not> isValidWebUrl env targetUrl \<longrightarrow>
              handler env req =
                (Sent 400
                   \<lparr>success = False, result = None, error = Some (str ''Invalid web url''),
                    errors = None\<rparr>, []))"
  using assms by (simp add: handler_def isString_def)

theorem other_methods_not_allowed_witness:
  "handler
     (example_env (str ''example.com'') (Inr None) (Inr None) (Inr None)
        (RenderFailed (Error [])) [])
     (example_request ''POST'' ''https://example.com/article'') =
     (Sent 404
        \<lparr>success = False, result = None, error = Some (str ''Method POST not allowed''),
         errors = None\<rparr>, [])
   \<and> handler
     (example_env (str ''example.com'') (Inr None) (Inr None) (Inr None)
        (RenderFailed (Error [])) [])
     (example_request ''DELETE'' ''ftp://example.com/article'') =
     (Sent 400
        \<lparr>success = False, result = None, error = Some (str ''Invalid web url''),
         errors = None\<rparr>, [])"
proof -
  let ?env = "example_env (str ''example.com'') (Inr None) (Inr None) (Inr None)
        (RenderFailed (Error [])) []"
  let ?post = "example_request ''POST'' ''https://example.com/article''"
  let ?delete = "example_request ''DELETE'' ''ftp://example.com/article''"
  have q1: "query_url ?post = QString (str ''https://example.com/article'')"
    and q2: "query_url ?delete = QString (str ''ftp://example.com/article'')"
    by (simp_all add: example_request_def)
  have d1: "decodeTarget ?env (str ''https://example.com/article'') = Inr (str ''https://example.com/article'')"
    and d2: "decodeTarget ?env (str ''ftp://example.com/article'') = Inr (str ''ftp://example.com/article'')"
    by (simp_all add: example_env_def)
  have m1: "req_method ?post \<noteq> Some (str ''GET'')"
    and m2: "req_method ?delete \<noteq> Some (str ''GET'')"
    by (simp_all add: example_request_def str_def)
  have v1: "isValidWebUrl ?env (str ''https://example.com/article'')"
    and v2: "\<not> isValidWebUrl ?env (str ''ftp://example.com/article'')"
    by (simp_all add: example_env_def str_def)
  have msg: "str ''Method '' @ (case req_method ?post of Some m \<Rightarrow> m | None \<Rightarrow> str ''undefined'')
      @ str '' not allowed'' = str ''Method POST not allowed''"
    by (simp add: example_request_def str_def)
  from other_methods_not_allowed [OF q1 d1 m1] v1 msg
    other_methods_not_allowed [OF q2 d2 m2] v2
  show ?thesis by simp
qed

section \<open>The URL of the metadata\<close>

text \<open>
  Claim C10. A \<open>data\<close> record of \<open>scrapeMetaTags\<close> carries the URL it was called with,
  and in every response of the handler that includes \<open>metaTags\<close>, their \<open>url\<close> is the
  decoded target URL.
\<close>

theorem metaTags_url_is_target:
  "(\<forall>m tr'. scrapeMetaTags env tr u = (Inr (Data m), tr') \<longrightarrow> url m = u)
   \<and> (\<forall>raw targetUrl st body tr2 r m.
         query_url req = QString raw \<and> decodeTarget env raw = Inr targetUrl
         \<and> handler env req = (Sent st body, tr2) \<and> result body = Some r
         \<and> metaTags r = Some m \<longrightarrow>
         url m = targetUrl)"
proof -
  have 1: "\<forall>m tr'. scrapeMetaTags env tr u = (Inr (Data m), tr') \<longrightarrow> url m = u"
    by (blast dest: scrapeMetaTags_url)
  have 2: "url m = targetUrl"
    if "query_url req = QString raw" and "decodeTarget env raw = Inr targetUrl"
      and "handler env req = (Sent st body, tr2)" and "result body = Some r"
      and "metaTags r = Some m"
    for raw targetUrl st body tr2 r m
  proof (cases "isValidWebUrl env targetUrl \<and> req_method req = Some (str ''GET'')")
    case True
    with that(1,2) have "validated_GET env req targetUrl"
      by (simp add: validated_GET_def)
    then have "handler env req = root_branch env targetUrl"
      by (rule handler_validated)
    with that(3) have "root_branch env targetUrl = (Sent st body, tr2)"
      by simp
    then show ?thesis using that(4,5) by (rule root_branch_url)
  next
    case False
    with that(1,2,3) have "result body = None"
      by (auto simp: handler_def isString_def split: if_splits)
    with that(4) show ?thesis by simp
  qed
  from 1 2 show ?thesis by blast
qed

theorem metaTags_url_is_target_witness:
  "url \<lparr>url = str ''https://example.com/article'', title = str ''   '',
        favicon = None, description = None, imageTag = None, author = None,
        siteName = None\<rparr> = str ''https://example.com/article''
   \<and> scrapeMetaTags
       (example_env (str ''example.com'') (Inr None) (Inr None) (Inr (Some (str ''<html>'')))
          (RenderFailed (Error [])) (str ''   ''))
       [] (str ''https://example.com/article'') =
       (Inr (Data \<lparr>url = str ''https://example.com/article'', title = str ''   '',
              favicon = None, description = None, imageTag = None, author = None,
              siteName = None\<rparr>), [ApiGet (str ''https://example.com/article'')])
   \<and> fst (handler
       (example_env (str ''example.com'') (Inr None) (Inr None) (Inr (Some (str ''<html>'')))
          (RenderFailed (Error [])) (str ''   ''))
       (example_request ''GET'' ''https://example.com/article'')) =
       Sent 200
         \<lparr>success = True,
          result = Some
            \<lparr>metaTags = Some
               \<lparr>url = str ''https://example.com/article'', title = str ''   '',
                favicon = None, description = None, imageTag = None, author = None,
                siteName = None\<rparr>,
             imageSearch = str ''example'', imageResults = []\<rparr>,
          error = None, errors = Some [Undefined]\<rparr>"
proof -
  let ?env = "example_env (str ''example.com'') (Inr None) (Inr None) (Inr (Some (str ''<html>'')))
          (RenderFailed (Error [])) (str ''   '')"
  let ?req = "example_request ''GET'' ''https://example.com/article''"
  let ?u = "str ''https://example.com/article''"
  let ?tags = "\<lparr>url = ?u, title = str ''   '', favicon = None, description = None,
      imageTag = None, author = None, siteName = None\<rparr>"
  let ?body = "\<lparr>success = True,
      result = Some \<lparr>metaTags = Some ?tags, imageSearch = str ''example'', imageResults = []\<rparr>,
      error = None, errors = Some [Undefined]\<rparr>"
  have s: "scrapeMetaTags ?env [] ?u = (Inr (Data ?tags), [ApiGet ?u])"
    by (simp add: eval_defs)
  have h: "handler ?env ?req =
      (Sent 200 ?body, [ApiRequest (bing_url ?env (str ''example'')), ApiGet ?u])"
    by (simp add: eval_defs)
  have q: "query_url ?req = QString ?u" and d: "decodeTarget ?env ?u = Inr ?u"
    by (simp_all add: example_request_def example_env_def)
  have r: "result ?body = Some \<lparr>metaTags = Some ?tags, imageSearch = str ''example'', imageResults = []\<rparr>"
    and m: "metaTags \<lparr>metaTags = Some ?tags, imageSearch = str ''example'', imageResults = []\<rparr> = Some ?tags"
    by simp_all
  from metaTags_url_is_target [of ?env "[]" ?u ?req] s q d h r m
  have "url ?tags = ?u" by blast
  with s h show ?thesis by simp
qed

end
